theory Spec2Isabelle
  imports Complex_Main
begin

section \<open>Python values and errors\<close>

text \<open>
  Durations, percentiles and statistics are Python floats in the scripts. They are
  modelled as exact reals: comparisons and the branch structure of the code are kept,
  rounding is not.
\<close>

datatype py_error = IndexError | ZeroDivisionError | StatisticsError | ValueError

text \<open>Python list indexing: a negative index counts from the end, out of range raises.\<close>

definition py_index :: "'a list \<Rightarrow> int \<Rightarrow> py_error + 'a" where
  "py_index xs i =
     (if 0 \<le> i \<and> i < int (length xs) then Inr (xs ! nat i)
      else if i < 0 \<and> - int (length xs) \<le> i then Inr (xs ! nat (int (length xs) + i))
      else Inl IndexError)"

text \<open>Python \<open>int(x)\<close> on a float truncates towards zero.\<close>

definition py_int :: "real \<Rightarrow> int" where
  "py_int x = (if 0 \<le> x then \<lfloor>x\<rfloor> else \<lceil>x\<rceil>)"

section \<open>percentile (simplified-academic-test.py, test-orchestrated-academic.py)\<close>

definition percentile :: "real list \<Rightarrow> real \<Rightarrow> py_error + real" where
  "percentile data percent =
     (if data = [] then Inr 0
      else
        let data_sorted = sort data;
            k = real (length data_sorted - 1) * percent / 100;
            f = py_int k;
            c = f + 1
        in if c \<ge> int (length data_sorted) then py_index data_sorted (- 1)
           else (case py_index data_sorted f of
                   Inl e \<Rightarrow> Inl e
                 | Inr vf \<Rightarrow>
                     (case py_index data_sorted c of
                        Inl e \<Rightarrow> Inl e
                      | Inr vc \<Rightarrow> Inr (vf * (of_int c - k) + vc * (k - of_int f)))))"


section \<open>Sequencing of calls that may raise\<close>

fun seq :: "'e + 'a \<Rightarrow> ('a \<Rightarrow> 'e + 'b) \<Rightarrow> 'e + 'b" where
  "seq (Inl e) f = Inl e"
| "seq (Inr x) f = f x"

section \<open>Library functions used by the aggregators\<close>

text \<open>\<open>statistics.mean\<close>: raises StatisticsError on an empty list.\<close>

definition statistics_mean :: "real list \<Rightarrow> py_error + real" where
  "statistics_mean xs =
     (if xs = [] then Inl StatisticsError else Inr (sum_list xs / real (length xs)))"

text \<open>\<open>statistics.median\<close>: middle value of the sorted data, mean of the two middle values
  for an even count.\<close>

definition statistics_median :: "real list \<Rightarrow> py_error + real" where
  "statistics_median xs =
     (if xs = [] then Inl StatisticsError
      else let d = sort xs; n = length d
           in if n mod 2 = 1 then Inr (d ! (n div 2))
              else Inr ((d ! (n div 2 - 1) + d ! (n div 2)) / 2))"

text \<open>\<open>statistics.stdev\<close>: sample standard deviation, needs two data points.\<close>

definition sample_variance :: "real list \<Rightarrow> real" where
  "sample_variance xs =
     (let m = sum_list xs / real (length xs)
      in sum_list (map (\<lambda>x. (x - m)\<^sup>2) xs) / real (length xs - 1))"

definition statistics_stdev :: "real list \<Rightarrow> py_error + real" where
  "statistics_stdev xs =
     (if length xs < 2 then Inl StatisticsError else Inr (sqrt (sample_variance xs)))"

definition py_min :: "real list \<Rightarrow> py_error + real" where
  "py_min xs = (case xs of [] \<Rightarrow> Inl ValueError | x # r \<Rightarrow> Inr (fold min r x))"

definition py_max :: "real list \<Rightarrow> py_error + real" where
  "py_max xs = (case xs of [] \<Rightarrow> Inl ValueError | x # r \<Rightarrow> Inr (fold max r x))"

text \<open>\<open>numpy.percentile\<close> with its default linear interpolation between the two
  neighbouring order statistics.\<close>

definition np_percentile :: "real list \<Rightarrow> real \<Rightarrow> py_error + real" where
  "np_percentile xs q =
     (if xs = [] then Inl IndexError
      else let d = sort xs; n = length d;
               k = real (n - 1) * q / 100;
               f = nat \<lfloor>k\<rfloor>;
               lo = d ! min f (n - 1);
               hi = d ! min (f + 1) (n - 1)
           in Inr (lo + (hi - lo) * (k - real f)))"

section \<open>Request results\<close>

text \<open>The dictionary an attempt returns. A key that a branch does not set is \<open>None\<close>:
  \<open>error\<close> is set on the failure branch only.\<close>

record request_result =
  success :: bool
  status_code :: "int option"
  duration_ms :: real
  error :: "string option"

section \<open>Aggregation in academic\_test\_suite\_real\_network.py\<close>

record latency_stats =
  mean_ms :: real
  median_ms :: real
  std_dev_ms :: real
  min_ms :: real
  max_ms :: real
  p95_ms :: real
  p99_ms :: real

record load_summary =
  total_requests :: nat
  successful_requests :: nat
  success_rate :: real
  total_duration_s :: real
  throughput_req_s :: real
  latency :: latency_stats

text \<open>Python float division raises ZeroDivisionError on a zero divisor.\<close>

definition py_truediv :: "real \<Rightarrow> real \<Rightarrow> py_error + real" where
  "py_truediv a b = (if b = 0 then Inl ZeroDivisionError else Inr (a / b))"

text \<open>The "Calculate metrics" part of \<open>run_real_network_load_test\<close> (lines 139-163), in
  the order in which Python evaluates it.\<close>

definition real_network_metrics :: "request_result list \<Rightarrow> real \<Rightarrow> py_error + load_summary" where
  "real_network_metrics results total_duration =
     (let successful = length (filter success results)
      in seq (py_truediv (real successful) (real (length results))) (\<lambda>rate.
         let latencies = map duration_ms results
         in seq (py_truediv (real (length results)) total_duration) (\<lambda>throughput.
            seq (statistics_mean latencies) (\<lambda>mean.
            seq (statistics_median latencies) (\<lambda>med.
            seq (if length latencies > 1 then statistics_stdev latencies else Inr 0) (\<lambda>sd.
            seq (py_min latencies) (\<lambda>mn.
            seq (py_max latencies) (\<lambda>mx.
            seq (np_percentile latencies 95) (\<lambda>p95.
            seq (np_percentile latencies 99) (\<lambda>p99.
              Inr \<lparr> total_requests = length results,
                    successful_requests = successful,
                    success_rate = rate,
                    total_duration_s = total_duration,
                    throughput_req_s = throughput,
                    latency = \<lparr> mean_ms = mean, median_ms = med, std_dev_ms = sd,
                                min_ms = mn, max_ms = mx, p95_ms = p95, p99_ms = p99 \<rparr> \<rparr>))))))))))"

section \<open>Aggregation in test-orchestrated.py\<close>

record performance =
  perf_total_requests :: nat
  perf_successful_requests :: nat
  perf_failed_requests :: nat
  success_rate_percent :: real
  total_duration_seconds :: real
  throughput_req_per_sec :: real
  avg_ms :: real
  perf_median_ms :: real
  perf_min_ms :: real
  perf_max_ms :: real
  perf_p95_ms :: real

text \<open>\<open>analyze_performance\<close> (lines 108-143). The P95 is the order statistic at index
  \<open>int(len(durations) * 0.95)\<close>.\<close>

definition analyze_performance :: "request_result list \<Rightarrow> real \<Rightarrow> py_error + performance" where
  "analyze_performance results total_duration =
     (let successful = filter success results;
          failed = filter (\<lambda>r. \<not> success r) results
      in seq (if successful \<noteq> []
              then (let durations = map duration_ms successful
                    in seq (statistics_mean durations) (\<lambda>avg.
                       seq (statistics_median durations) (\<lambda>med.
                       seq (py_min durations) (\<lambda>mn.
                       seq (py_max durations) (\<lambda>mx.
                       seq (py_index (sort durations)
                              (py_int (real (length durations) * 0.95))) (\<lambda>p95.
                         Inr (avg, med, mn, mx, p95)))))))
              else Inr (0, 0, 0, 0, 0))
           (\<lambda>(avg, med, mn, mx, p95).
         seq (if results \<noteq> []
              then seq (py_truediv (real (length successful)) (real (length results)))
                     (\<lambda>r. Inr (r * 100))
              else Inr 0) (\<lambda>rate.
         seq (if total_duration > 0
              then py_truediv (real (length successful)) total_duration
              else Inr 0) (\<lambda>throughput.
           Inr \<lparr> perf_total_requests = length results,
                 perf_successful_requests = length successful,
                 perf_failed_requests = length failed,
                 success_rate_percent = rate,
                 total_duration_seconds = total_duration,
                 throughput_req_per_sec = throughput,
                 avg_ms = avg, perf_median_ms = med, perf_min_ms = mn,
                 perf_max_ms = mx, perf_p95_ms = p95 \<rparr>))))"


section \<open>network\_simulator.py\<close>

record network_profile =
  profile_name :: string
  base_latency_ms :: real
  jitter_ms :: real
  packet_loss_rate :: real
  bandwidth_limit_mbps :: real

record load_profile =
  load_name :: string
  cpu_delay_ms :: real
  memory_pressure :: real
  io_delay_ms :: real

record scenario =
  scenario_title :: string
  network_profile_key :: string
  server_load_key :: string

definition profiles :: "string \<rightharpoonup> network_profile" where
  "profiles = map_of
     [(''localhost'', \<lparr>profile_name = ''Localhost'', base_latency_ms = 1, jitter_ms = 0.5,
         packet_loss_rate = 0.001, bandwidth_limit_mbps = 1000\<rparr>),
      (''lan'', \<lparr>profile_name = ''Local Area Network'', base_latency_ms = 5, jitter_ms = 2,
         packet_loss_rate = 0.01, bandwidth_limit_mbps = 100\<rparr>),
      (''wan_good'', \<lparr>profile_name = ''Good WAN Connection'', base_latency_ms = 50,
         jitter_ms = 10, packet_loss_rate = 0.02, bandwidth_limit_mbps = 50\<rparr>),
      (''wan_average'', \<lparr>profile_name = ''Average WAN Connection'', base_latency_ms = 100,
         jitter_ms = 25, packet_loss_rate = 0.05, bandwidth_limit_mbps = 20\<rparr>),
      (''wan_poor'', \<lparr>profile_name = ''Poor WAN Connection'', base_latency_ms = 200,
         jitter_ms = 50, packet_loss_rate = 0.1, bandwidth_limit_mbps = 5\<rparr>),
      (''mobile_4g'', \<lparr>profile_name = ''Mobile 4G Network'', base_latency_ms = 80,
         jitter_ms = 30, packet_loss_rate = 0.03, bandwidth_limit_mbps = 25\<rparr>),
      (''mobile_3g'', \<lparr>profile_name = ''Mobile 3G Network'', base_latency_ms = 150,
         jitter_ms = 60, packet_loss_rate = 0.08, bandwidth_limit_mbps = 3\<rparr>),
      (''satellite'', \<lparr>profile_name = ''Satellite Connection'', base_latency_ms = 600,
         jitter_ms = 100, packet_loss_rate = 0.15, bandwidth_limit_mbps = 10\<rparr>)]"

definition load_profiles :: "string \<rightharpoonup> load_profile" where
  "load_profiles = map_of
     [(''light'', \<lparr>load_name = ''Light Load'', cpu_delay_ms = 5, memory_pressure = 0.1,
         io_delay_ms = 10\<rparr>),
      (''moderate'', \<lparr>load_name = ''Moderate Load'', cpu_delay_ms = 20, memory_pressure = 0.3,
         io_delay_ms = 50\<rparr>),
      (''heavy'', \<lparr>load_name = ''Heavy Load'', cpu_delay_ms = 100, memory_pressure = 0.7,
         io_delay_ms = 200\<rparr>),
      (''overloaded'', \<lparr>load_name = ''Overloaded'', cpu_delay_ms = 500, memory_pressure = 0.9,
         io_delay_ms = 1000\<rparr>)]"

definition scenarios :: "string \<rightharpoonup> scenario" where
  "scenarios = map_of
     [(''enterprise_lan'', \<lparr>scenario_title = ''Enterprise LAN'',
         network_profile_key = ''lan'', server_load_key = ''light''\<rparr>),
      (''cloud_datacenter'', \<lparr>scenario_title = ''Cloud Datacenter'',
         network_profile_key = ''wan_good'', server_load_key = ''moderate''\<rparr>),
      (''remote_office'', \<lparr>scenario_title = ''Remote Office'',
         network_profile_key = ''wan_average'', server_load_key = ''moderate''\<rparr>),
      (''mobile_users'', \<lparr>scenario_title = ''Mobile Users'',
         network_profile_key = ''mobile_4g'', server_load_key = ''heavy''\<rparr>),
      (''poor_connectivity'', \<lparr>scenario_title = ''Poor Connectivity'',
         network_profile_key = ''wan_poor'', server_load_key = ''heavy''\<rparr>),
      (''disaster_recovery'', \<lparr>scenario_title = ''Disaster Recovery'',
         network_profile_key = ''satellite'', server_load_key = ''overloaded''\<rparr>)]"

text \<open>
  The state of the global \<open>real_world_sim\<close>: the active profile of its NetworkSimulator,
  the active load of its ServerLoadSimulator, and its own active scenario name.
\<close>

record simulator =
  active_profile :: "network_profile option"
  active_load :: "load_profile option"
  active_scenario :: "string option"

definition initial_simulator :: simulator where
  "initial_simulator = \<lparr>active_profile = None, active_load = None, active_scenario = None\<rparr>"

definition apply_network_profile :: "simulator \<Rightarrow> string \<Rightarrow> py_error + simulator" where
  "apply_network_profile st name =
     (case profiles name of
        None \<Rightarrow> Inl ValueError
      | Some p \<Rightarrow> Inr (st\<lparr>active_profile := Some p\<rparr>))"

definition apply_load_profile :: "simulator \<Rightarrow> string \<Rightarrow> py_error + simulator" where
  "apply_load_profile st name =
     (case load_profiles name of
        None \<Rightarrow> Inl ValueError
      | Some p \<Rightarrow> Inr (st\<lparr>active_load := Some p\<rparr>))"

definition apply_real_world_scenario :: "simulator \<Rightarrow> string \<Rightarrow> py_error + simulator" where
  "apply_real_world_scenario st name =
     (case scenarios name of
        None \<Rightarrow> Inl ValueError
      | Some sc \<Rightarrow>
          seq (apply_network_profile st (network_profile_key sc)) (\<lambda>st1.
          seq (apply_load_profile st1 (server_load_key sc)) (\<lambda>st2.
            Inr (st2\<lparr>active_scenario := Some name\<rparr>))))"

text \<open>\<open>NetworkSimulator.clear_simulation\<close> resets the active profile only.\<close>

definition network_clear_simulation :: "simulator \<Rightarrow> simulator" where
  "network_clear_simulation st = st\<lparr>active_profile := None\<rparr>"

text \<open>\<open>RealWorldSimulator.clear_simulation\<close> ("Clear all simulations"): clears the network
  simulator and the scenario name.\<close>

definition clear_simulation :: "simulator \<Rightarrow> simulator" where
  "clear_simulation st = (network_clear_simulation st)\<lparr>active_scenario := None\<rparr>"

text \<open>
  What an attempt does to the outside world, in order: sleeps (in seconds) and the call
  of the wrapped request function.
\<close>

datatype event = Sleep real | Call

text \<open>
  The random numbers the simulator draws during one attempt are inputs of the model:
  \<open>cpu_variation\<close> and \<open>io_variation\<close> are the results of \<open>normalvariate(1.0, 0.2)\<close> and
  \<open>normalvariate(1.0, 0.5)\<close>, \<open>loss_sample\<close> is \<open>random.random()\<close>, \<open>jitter_sample\<close> is
  \<open>normalvariate(0, jitter/3)\<close> and \<open>bandwidth_variability\<close> is \<open>normalvariate(1.0, 0.1)\<close>.
\<close>

record draws =
  cpu_variation :: real
  io_variation :: real
  loss_sample :: real
  jitter_sample :: real
  bandwidth_variability :: real

text \<open>
  An exception of an attempt: the ConnectionError the simulator raises for a lost packet
  (carrying the loss rate of its message), or any exception of the wrapped function, with
  its text.
\<close>

datatype exn = PacketLoss real | Raised string

text \<open>The response of the wrapped function: its status, and the size of \<open>content\<close> when
  the object has that attribute.\<close>

record response =
  resp_status :: int
  content_size :: "nat option"

definition simulate_network_delay :: "simulator \<Rightarrow> draws \<Rightarrow> real" where
  "simulate_network_delay st rnd =
     (case active_profile st of
        None \<Rightarrow> 0
      | Some p \<Rightarrow> max 0 (base_latency_ms p + jitter_sample rnd) / 1000)"

definition simulate_packet_loss :: "simulator \<Rightarrow> draws \<Rightarrow> bool" where
  "simulate_packet_loss st rnd =
     (case active_profile st of
        None \<Rightarrow> False
      | Some p \<Rightarrow> loss_sample rnd < packet_loss_rate p)"

definition simulate_bandwidth_limit :: "simulator \<Rightarrow> draws \<Rightarrow> nat \<Rightarrow> real" where
  "simulate_bandwidth_limit st rnd data_size_bytes =
     (case active_profile st of
        None \<Rightarrow> 0
      | Some p \<Rightarrow>
          max 0 (real data_size_bytes * 8 / (bandwidth_limit_mbps p * 1000000)
                 * bandwidth_variability rnd))"

text \<open>\<open>NetworkSimulator.simulate_real_request\<close>: the events of the attempt and its outcome.\<close>

definition simulate_real_request ::
  "simulator \<Rightarrow> draws \<Rightarrow> exn + response \<Rightarrow> event list \<times> (exn + response)" where
  "simulate_real_request st rnd request_func =
     (case active_profile st of
        None \<Rightarrow> ([Call], request_func)
      | Some p \<Rightarrow>
          if simulate_packet_loss st rnd then ([], Inl (PacketLoss (packet_loss_rate p)))
          else
            let network_delay = simulate_network_delay st rnd;
                before = (if network_delay > 0 then [Sleep network_delay] else [])
            in (case request_func of
                  Inl e \<Rightarrow> (before @ [Call], Inl e)
                | Inr resp \<Rightarrow>
                    (case content_size resp of
                       None \<Rightarrow> (before @ [Call], Inr resp)
                     | Some response_size \<Rightarrow>
                         let bandwidth_delay = simulate_bandwidth_limit st rnd response_size
                         in (before @ [Call]
                               @ (if bandwidth_delay > 0 then [Sleep bandwidth_delay] else []),
                             Inr resp))))"

text \<open>\<open>ServerLoadSimulator.simulate_server_processing\<close>: the sleeps it performs.\<close>

definition simulate_server_processing :: "simulator \<Rightarrow> draws \<Rightarrow> event list" where
  "simulate_server_processing st rnd =
     (case active_load st of
        None \<Rightarrow> []
      | Some l \<Rightarrow>
          let actual_cpu_delay = max 0 (cpu_delay_ms l / 1000 * cpu_variation rnd);
              actual_io_delay = max 0 (io_delay_ms l / 1000 * io_variation rnd)
          in (if actual_cpu_delay > 0 then [Sleep actual_cpu_delay] else [])
             @ (if actual_io_delay > 0 then [Sleep actual_io_delay] else []))"

text \<open>\<open>RealWorldSimulator.simulate_real_world_request\<close>: server processing first, then the
  network simulation.\<close>

definition simulate_real_world_request ::
  "simulator \<Rightarrow> draws \<Rightarrow> exn + response \<Rightarrow> event list \<times> (exn + response)" where
  "simulate_real_world_request st rnd request_func =
     (let server = simulate_server_processing st rnd;
          (net, outcome) = simulate_real_request st rnd request_func
      in (server @ net, outcome))"

section \<open>The load driver\<close>

text \<open>
  One scheduled attempt: the two readings of \<open>time.time()\<close> around it, the random draws
  of the simulator and what the wrapped \<open>requests.post\<close> would do when called.
\<close>

record attempt =
  start_time :: real
  end_time :: real
  attempt_draws :: draws
  request_func :: "exn + response"

text \<open>
  Decimal rendering of a float with one digit after the point, as the format \<open>.1f\<close> does:
  rounded to the nearest tenth, a tie to the even one.
\<close>

definition digit :: "nat \<Rightarrow> string" where
  "digit n =
     (if n = 0 then ''0'' else if n = 1 then ''1'' else if n = 2 then ''2''
      else if n = 3 then ''3'' else if n = 4 then ''4'' else if n = 5 then ''5''
      else if n = 6 then ''6'' else if n = 7 then ''7'' else if n = 8 then ''8'' else ''9'')"

fun decimal :: "nat \<Rightarrow> string" where
  "decimal n = (if n < 10 then digit n else decimal (n div 10) @ digit (n mod 10))"

declare decimal.simps [simp del]

definition round_half_even :: "real \<Rightarrow> int" where
  "round_half_even x =
     (let f = \<lfloor>x\<rfloor>; d = x - of_int f
      in if d < 1 / 2 then f else if d > 1 / 2 then f + 1
         else if even f then f else f + 1)"

definition format_1f :: "real \<Rightarrow> string" where
  "format_1f x =
     (let t = nat (round_half_even (\<bar>x\<bar> * 10))
      in (if x < 0 then ''-'' else []) @ decimal (t div 10) @ ''.'' @ digit (t mod 10))"

text \<open>\<open>str(e)\<close> of an exception: the packet-loss error carries the message
  \<open>NETWORK_SIM: Packet loss (rate: R%)\<close>, where \<open>R\<close> is \<open>rate*100\<close> in the format \<open>.1f\<close>.\<close>

fun str_exn :: "exn \<Rightarrow> string" where
  "str_exn (PacketLoss r) = ''NETWORK_SIM: Packet loss (rate: '' @ format_1f (r * 100) @ ''%)''"
| "str_exn (Raised msg) = msg"

text \<open>\<open>execute_real_network_request\<close> (academic\_test\_suite\_real\_network.py, lines 67-114).\<close>

definition execute_real_network_request :: "simulator \<Rightarrow> attempt \<Rightarrow> request_result" where
  "execute_real_network_request st a =
     (case snd (simulate_real_world_request st (attempt_draws a) (request_func a)) of
        Inr resp \<Rightarrow>
          \<lparr> success = (resp_status resp = 200 \<or> resp_status resp = 201),
            status_code = Some (resp_status resp),
            duration_ms = (end_time a - start_time a) * 1000,
            error = None \<rparr>
      | Inl e \<Rightarrow>
          \<lparr> success = False,
            status_code = Some 0,
            duration_ms = (end_time a - start_time a) * 1000,
            error = Some (str_exn e) \<rparr>)"

text \<open>The request loop of \<open>run_real_network_load_test\<close> (lines 123-134): one attempt after
  the other, each result appended.\<close>

fun request_loop :: "simulator \<Rightarrow> attempt list \<Rightarrow> request_result list \<Rightarrow> request_result list" where
  "request_loop st [] results = results"
| "request_loop st (a # rest) results =
     request_loop st rest (results @ [execute_real_network_request st a])"

definition run_real_network_load_test ::
  "simulator \<Rightarrow> attempt list \<Rightarrow> real \<Rightarrow> py_error + load_summary" where
  "run_real_network_load_test st attempts total_duration =
     real_network_metrics (request_loop st attempts []) total_duration"

text \<open>\<open>SagaLoadTester.create_order\<close> (load-test.py, lines 19-56): the request is posted
  directly, success is status 200.\<close>

definition create_order :: "attempt \<Rightarrow> request_result" where
  "create_order a =
     (case request_func a of
        Inr resp \<Rightarrow>
          \<lparr> success = (resp_status resp = 200),
            status_code = Some (resp_status resp),
            duration_ms = (end_time a - start_time a) * 1000,
            error = None \<rparr>
      | Inl e \<Rightarrow>
          \<lparr> success = False,
            status_code = None,
            duration_ms = (end_time a - start_time a) * 1000,
            error = Some (str_exn e) \<rparr>)"


section \<open>The statistical comparators\<close>

text \<open>
  numpy scalars do not raise on a zero divisor: the quotient is \<open>nan\<close> or an infinity
  (with a warning). Only these special values are modelled, not rounding.
\<close>

datatype npfloat = Fin real | PosInf | NegInf | NaN

definition np_div :: "real \<Rightarrow> real \<Rightarrow> npfloat" where
  "np_div a b =
     (if b \<noteq> 0 then Fin (a / b)
      else if a = 0 then NaN else if a > 0 then PosInf else NegInf)"

fun np_abs :: "npfloat \<Rightarrow> npfloat" where
  "np_abs (Fin x) = Fin \<bar>x\<bar>"
| "np_abs PosInf = PosInf"
| "np_abs NegInf = PosInf"
| "np_abs NaN = NaN"

fun np_scale :: "npfloat \<Rightarrow> real \<Rightarrow> npfloat" where
  "np_scale (Fin x) c = Fin (x * c)"
| "np_scale PosInf c = (if c > 0 then PosInf else if c < 0 then NegInf else NaN)"
| "np_scale NegInf c = (if c > 0 then NegInf else if c < 0 then PosInf else NaN)"
| "np_scale NaN c = NaN"

fun np_less :: "npfloat \<Rightarrow> real \<Rightarrow> bool" where
  "np_less (Fin x) c = (x < c)"
| "np_less NegInf c = True"
| "np_less PosInf c = False"
| "np_less NaN c = False"

text \<open>
  The scipy tests are external: they are parameters of the model. Each returns its
  statistic and p-value, or \<open>None\<close> when the call raises. \<open>ttest_ind\<close> takes the
  \<open>equal_var\<close> flag (false selects Welch's test); \<open>mannwhitneyu\<close> is the call with
  \<open>alternative='two-sided'\<close>.
\<close>

record scipy =
  shapiro :: "real list \<Rightarrow> (real \<times> real) option"
  levene :: "real list \<Rightarrow> real list \<Rightarrow> (real \<times> real) option"
  ttest_ind :: "real list \<Rightarrow> real list \<Rightarrow> bool \<Rightarrow> (real \<times> real) option"
  mannwhitneyu :: "real list \<Rightarrow> real list \<Rightarrow> (real \<times> real) option"

text \<open>\<open>test_normality\<close> (both analyzers): the name of the test entry and \<open>is_normal\<close>.\<close>

definition test_normality :: "scipy \<Rightarrow> real \<Rightarrow> real list \<Rightarrow> string \<times> bool" where
  "test_normality sp alpha data =
     (if length data < 3 then (''insufficient_data'', False)
      else (case shapiro sp data of
              Some (statistic, p_value) \<Rightarrow> (''shapiro_wilk'', p_value > alpha)
            | None \<Rightarrow> (''error'', False)))"

text \<open>The \<open>statistical_test\<close> entry of a comparison. \<open>levene_test\<close> is the key the archived
  analyzer adds after its t-test; \<open>None\<close> when the key is not set.\<close>

record statistical_test =
  test :: string
  statistic :: real
  p_value :: real
  significant :: bool
  levene_test :: "(real \<times> real) option"

text \<open>Test selection of \<open>StatisticalAnalyzer.compare_metrics\<close>
  (archived\_files/statistical\_analysis.py, lines 164-209). \<open>None\<close> is the entry
  \<open>{'test': 'error'}\<close> written when the Mann-Whitney call raises.\<close>

definition mann_whitney_entry :: "scipy \<Rightarrow> real \<Rightarrow> real list \<Rightarrow> real list \<Rightarrow> statistical_test option" where
  "mann_whitney_entry sp alpha orch_data choreo_data =
     (case mannwhitneyu sp orch_data choreo_data of
        Some (s, p) \<Rightarrow>
          Some \<lparr>test = ''Mann-Whitney U test'', statistic = s, p_value = p,
                significant = (p < alpha), levene_test = None\<rparr>
      | None \<Rightarrow> None)"

definition archived_select_test ::
  "scipy \<Rightarrow> real \<Rightarrow> real list \<Rightarrow> real list \<Rightarrow> statistical_test option" where
  "archived_select_test sp alpha orch_data choreo_data =
     (let both_normal = snd (test_normality sp alpha orch_data)
                        \<and> snd (test_normality sp alpha choreo_data)
      in if both_normal then
           (case levene sp orch_data choreo_data of
              None \<Rightarrow> mann_whitney_entry sp alpha orch_data choreo_data
            | Some (levene_stat, levene_p) \<Rightarrow>
                let equal_var = (levene_p > alpha)
                in (case ttest_ind sp orch_data choreo_data equal_var of
                      None \<Rightarrow> mann_whitney_entry sp alpha orch_data choreo_data
                    | Some (s, p) \<Rightarrow>
                        Some \<lparr>test = (if equal_var then ''Independent t-test (equal_var=True)''
                                       else ''Independent t-test (equal_var=False)''),
                              statistic = s, p_value = p, significant = (p < alpha),
                              levene_test = Some (levene_stat, levene_p)\<rparr>))
         else mann_whitney_entry sp alpha orch_data choreo_data)"

datatype scipy_error = ScipyRaised

text \<open>Test selection of \<open>OptimizedStatisticalAnalyzer.compare_metrics\<close>
  (statistical\_analysis\_optimized.py, lines 159-169): \<open>ttest_ind\<close> is called with its
  default \<open>equal_var=True\<close>; an exception of the test is not caught.\<close>

definition optimized_select_test ::
  "scipy \<Rightarrow> real \<Rightarrow> real list \<Rightarrow> real list \<Rightarrow> scipy_error + statistical_test" where
  "optimized_select_test sp alpha orch_data choreo_data =
     (let both_normal = snd (test_normality sp alpha orch_data)
                        \<and> snd (test_normality sp alpha choreo_data)
      in if both_normal then
           (case ttest_ind sp orch_data choreo_data True of
              None \<Rightarrow> Inl ScipyRaised
            | Some (s, p) \<Rightarrow>
                Inr \<lparr>test = ''Independent t-test'', statistic = s, p_value = p,
                     significant = (p < alpha), levene_test = None\<rparr>)
         else
           (case mannwhitneyu sp orch_data choreo_data of
              None \<Rightarrow> Inl ScipyRaised
            | Some (s, p) \<Rightarrow>
                Inr \<lparr>test = ''Mann-Whitney U test'', statistic = s, p_value = p,
                     significant = (p < alpha), levene_test = None\<rparr>))"

text \<open>
  The floating-point kernels of the effect size are parameters of the model as well:
  \<open>np.mean\<close>, \<open>np.std(ddof=1)\<close> and \<open>np.sqrt\<close>, and the rounded addition, multiplication
  and division of floats. Nothing is assumed about how they round, so the comparisons
  the code makes on their results are the comparisons of the model. A square \<open>x**2\<close> is
  the product of \<open>x\<close> with itself.
\<close>

record numerics =
  np_mean :: "real list \<Rightarrow> real"
  np_std :: "real list \<Rightarrow> real"
  np_sqrt :: "real \<Rightarrow> real"
  fadd :: "real \<Rightarrow> real \<Rightarrow> real"
  fmul :: "real \<Rightarrow> real \<Rightarrow> real"
  fdiv :: "real \<Rightarrow> real \<Rightarrow> real"

text \<open>\<open>pooled_std\<close> of the optimized analyzer (lines 172-174).\<close>

definition pooled_std :: "numerics \<Rightarrow> real list \<Rightarrow> real list \<Rightarrow> real" where
  "pooled_std nm orch_data choreo_data =
     np_sqrt nm
       (fdiv nm
          (fadd nm
             (fmul nm (real (length orch_data - 1))
                (fmul nm (np_std nm orch_data) (np_std nm orch_data)))
             (fmul nm (real (length choreo_data - 1))
                (fmul nm (np_std nm choreo_data) (np_std nm choreo_data))))
          (real (length orch_data + length choreo_data - 2)))"

text \<open>The effect size of a comparison: Cohen's d, and its \<open>interpretation\<close> where the
  analyzer writes one (\<open>None\<close>: no such key).\<close>

record effect_size =
  cohens_d :: npfloat
  effect_interpretation :: "string option"

text \<open>Optimized analyzer, lines 171-179: the division is guarded by \<open>pooled_std > 0\<close>;
  the result holds the number only.\<close>

definition optimized_effect_size :: "numerics \<Rightarrow> real list \<Rightarrow> real list \<Rightarrow> effect_size" where
  "optimized_effect_size nm orch_data choreo_data =
     \<lparr> cohens_d =
         (if pooled_std nm orch_data choreo_data > 0
          then np_div (np_mean nm orch_data - np_mean nm choreo_data)
                 (pooled_std nm orch_data choreo_data)
          else Fin 0),
       effect_interpretation = None \<rparr>"

text \<open>Archived analyzer: \<open>calculate_cohens_d\<close> (lines 264-275) takes means and standard
  deviations from the \<open>statistics\<close> module and divides by the numpy scalar \<open>pooled_std\<close>
  without a guard; \<open>interpret_effect_size\<close> (lines 277-287) classifies the result.\<close>

definition calculate_cohens_d :: "numerics \<Rightarrow> real list \<Rightarrow> real list \<Rightarrow> py_error + npfloat" where
  "calculate_cohens_d nm group1 group2 =
     seq (statistics_mean group1) (\<lambda>mean1.
     seq (statistics_mean group2) (\<lambda>mean2.
     seq (statistics_stdev group1) (\<lambda>std1.
     seq (statistics_stdev group2) (\<lambda>std2.
       let n1 = length group1; n2 = length group2;
           pooled = np_sqrt nm
                      (fdiv nm
                         (fadd nm (fmul nm (real (n1 - 1)) (fmul nm std1 std1))
                                  (fmul nm (real (n2 - 1)) (fmul nm std2 std2)))
                         (real (n1 + n2 - 2)))
       in Inr (np_div (mean1 - mean2) pooled)))))"

definition interpret_effect_size :: "npfloat \<Rightarrow> string" where
  "interpret_effect_size d =
     (let abs_d = np_abs d
      in if np_less abs_d 0.2 then ''negligible''
         else if np_less abs_d 0.5 then ''small''
         else if np_less abs_d 0.8 then ''medium''
         else ''large'')"

text \<open>The \<open>effect_size\<close> entry of the archived comparison; \<open>None\<close> is the entry
  \<open>{'error': ...}\<close> written when the computation raises.\<close>

definition archived_effect_size :: "numerics \<Rightarrow> real list \<Rightarrow> real list \<Rightarrow> effect_size option" where
  "archived_effect_size nm orch_data choreo_data =
     (case calculate_cohens_d nm orch_data choreo_data of
        Inl e \<Rightarrow> None
      | Inr d \<Rightarrow> Some \<lparr>cohens_d = d, effect_interpretation = Some (interpret_effect_size d)\<rparr>)"

text \<open>Winner and improvement. The optimized analyzer (lines 181-192) works on numpy
  scalars and divides by the larger mean for every metric.\<close>

definition latency_metric :: "string \<Rightarrow> bool" where
  "latency_metric metric_name = (metric_name = ''latencies'' \<or> metric_name = ''p95_latencies'')"

definition optimized_winner :: "string \<Rightarrow> real \<Rightarrow> real \<Rightarrow> string \<times> npfloat" where
  "optimized_winner metric_name orch_mean choreo_mean =
     (if latency_metric metric_name then
        (if orch_mean < choreo_mean then ''orchestrated'' else ''choreographed'',
         np_scale (np_abs (np_div (orch_mean - choreo_mean) (max orch_mean choreo_mean))) 100)
      else
        (if orch_mean > choreo_mean then ''orchestrated'' else ''choreographed'',
         np_scale (np_abs (np_div (orch_mean - choreo_mean) (max orch_mean choreo_mean))) 100))"


text \<open>\<open>compare_metrics\<close> of the optimized analyzer: the guard on the sample sizes, then the
  test, the effect size and the winner.\<close>

record comparison =
  cmp_test :: statistical_test
  cmp_effect :: effect_size
  winner :: string
  improvement_percent :: npfloat

datatype compare_result = Insufficient_data nat nat | Compared comparison

definition optimized_compare_metrics ::
  "scipy \<Rightarrow> numerics \<Rightarrow> real \<Rightarrow> string \<Rightarrow> real list \<Rightarrow> real list
     \<Rightarrow> scipy_error + compare_result" where
  "optimized_compare_metrics sp nm alpha metric_name orch_data choreo_data =
     (if length orch_data < 3 \<or> length choreo_data < 3
      then Inr (Insufficient_data (length orch_data) (length choreo_data))
      else seq (optimized_select_test sp alpha orch_data choreo_data) (\<lambda>t.
        let e = optimized_effect_size nm orch_data choreo_data;
            (w, i) = optimized_winner metric_name (np_mean nm orch_data) (np_mean nm choreo_data)
        in Inr (Compared \<lparr>cmp_test = t, cmp_effect = e, winner = w, improvement_percent = i\<rparr>)))"


section \<open>Example inputs\<close>

text \<open>The simulator after \<open>apply_real_world_scenario('poor_connectivity')\<close>.\<close>

definition wan_poor :: network_profile where
  "wan_poor = \<lparr>profile_name = ''Poor WAN Connection'', base_latency_ms = 200,
     jitter_ms = 50, packet_loss_rate = 0.1, bandwidth_limit_mbps = 5\<rparr>"

definition heavy :: load_profile where
  "heavy = \<lparr>load_name = ''Heavy Load'', cpu_delay_ms = 100, memory_pressure = 0.7,
     io_delay_ms = 200\<rparr>"

definition poor_connectivity :: simulator where
  "poor_connectivity = \<lparr>active_profile = Some wan_poor, active_load = Some heavy,
     active_scenario = Some ''poor_connectivity''\<rparr>"

text \<open>Random draws: a uniform sample below and above the loss rate 0.1, no jitter.\<close>

definition lost_draws :: draws where
  "lost_draws = \<lparr>cpu_variation = 1, io_variation = 1, loss_sample = 0.05, jitter_sample = 0,
     bandwidth_variability = 1\<rparr>"

definition kept_draws :: draws where
  "kept_draws = \<lparr>cpu_variation = 1, io_variation = 1, loss_sample = 0.5, jitter_sample = 0,
     bandwidth_variability = 1\<rparr>"

definition ok_response :: response where
  "ok_response = \<lparr>resp_status = 200, content_size = Some 100\<rparr>"

text \<open>An attempt whose packet is lost, and one whose request times out.\<close>

definition lost_attempt :: attempt where
  "lost_attempt = \<lparr>start_time = 0, end_time = 0.3, attempt_draws = lost_draws,
     request_func = Inr ok_response\<rparr>"

definition timeout_attempt :: attempt where
  "timeout_attempt = \<lparr>start_time = 1, end_time = 61, attempt_draws = kept_draws,
     request_func = Inl (Raised ''Read timed out'')\<rparr>"

text \<open>
  The floating-point kernels without rounding. They are used below on the constant
  sample \<open>[5, 5, 5]\<close> only, where mean 5, standard deviation 0 and every intermediate
  result are floats, so that they give the values numpy computes there.
\<close>

definition unrounded :: numerics where
  "unrounded =
     \<lparr> np_mean = (\<lambda>xs. sum_list xs / real (length xs)),
       np_std = (\<lambda>xs. sqrt (sample_variance xs)),
       np_sqrt = sqrt,
       fadd = (+), fmul = (*), fdiv = (/) \<rparr>"

section \<open>Properties of percentile\<close>

lemma py_index_nonneg:
  "0 \<le> i \<Longrightarrow> i < int (length xs) \<Longrightarrow> py_index xs i = Inr (xs ! nat i)"
  by (simp add: py_index_def)

lemma py_index_last:
  "xs \<noteq> [] \<Longrightarrow> py_index xs (- 1) = Inr (xs ! nat (int (length xs) - 1))"
  by (cases xs) (simp_all add: py_index_def)

lemma percentile_unfold:
  assumes "v \<noteq> []" "sort v = v" "0 \<le> real (length v - 1) * p / 100"
  shows "percentile v p =
     (if \<lfloor>real (length v - 1) * p / 100\<rfloor> + 1 \<ge> int (length v) then py_index v (- 1)
      else (case py_index v \<lfloor>real (length v - 1) * p / 100\<rfloor> of
                   Inl e \<Rightarrow> Inl e
                 | Inr vf \<Rightarrow>
                     (case py_index v (\<lfloor>real (length v - 1) * p / 100\<rfloor> + 1) of
                        Inl e \<Rightarrow> Inl e
                      | Inr vc \<Rightarrow> Inr (vf * (of_int (\<lfloor>real (length v - 1) * p / 100\<rfloor> + 1) - real (length v - 1) * p / 100) + vc * (real (length v - 1) * p / 100 - of_int \<lfloor>real (length v - 1) * p / 100\<rfloor>)))))"
  using assms by (simp only: percentile_def Let_def py_int_def if_False if_True)

text \<open>
  Claim C1. For a non-empty ascending list \<open>v\<close> of \<open>n\<close> durations and a percentile \<open>p\<close>
  between 0 and 100, with \<open>k = (n-1)*p/100\<close>, \<open>f = floor k\<close> and \<open>c = f+1\<close>, \<open>percentile\<close>
  returns \<open>v[n-1]\<close> when \<open>c \<ge> n\<close> and \<open>v[f]*(c-k) + v[c]*(k-f)\<close> otherwise; and
  \<open>percentile([10,20,30,40], 95)\<close> is 38.5.
\<close>

theorem percentile_interpolation:
  assumes "v \<noteq> []" and "sorted v" and "0 \<le> p" and "p \<le> 100"
  shows "percentile v p =
     (let n = int (length v); k = real_of_int (n - 1) * p / 100; f = \<lfloor>k\<rfloor>; c = f + 1
      in if c \<ge> n then Inr (v ! nat (n - 1))
         else Inr (v ! nat f * (of_int c - k) + v ! nat c * (k - of_int f)))
     \<and> percentile [10, 20, 30, 40] 95 = Inr 38.5"
proof
  have s: "sort v = v" using assms(2) by (simp add: sorted_sort_id)
  define k where "k = real (length v - 1) * p / 100"
  have k0: "0 \<le> k" unfolding k_def using assms(3) by simp
  have f0: "0 \<le> \<lfloor>k\<rfloor>" using k0 by simp
  have neq: "int (length v) - 1 = int (length v - 1)" using assms(1) by (cases v) simp_all
  have keq: "real_of_int (int (length v) - 1) * p / 100 = k"
    unfolding k_def neq by simp
  have u: "percentile v p =
     (if \<lfloor>k\<rfloor> + 1 \<ge> int (length v) then py_index v (- 1)
      else (case py_index v \<lfloor>k\<rfloor> of
                   Inl e \<Rightarrow> Inl e
                 | Inr vf \<Rightarrow>
                     (case py_index v (\<lfloor>k\<rfloor> + 1) of
                        Inl e \<Rightarrow> Inl e
                      | Inr vc \<Rightarrow> Inr (vf * (of_int (\<lfloor>k\<rfloor> + 1) - k) + vc * (k - of_int \<lfloor>k\<rfloor>)))))"
    unfolding k_def using percentile_unfold [OF assms(1) s] k0 [unfolded k_def] by blast
  show "percentile v p =
     (let n = int (length v); k = real_of_int (n - 1) * p / 100; f = \<lfloor>k\<rfloor>; c = f + 1
      in if c \<ge> n then Inr (v ! nat (n - 1))
         else Inr (v ! nat f * (of_int c - k) + v ! nat c * (k - of_int f)))"
  proof (cases "\<lfloor>k\<rfloor> + 1 \<ge> int (length v)")
    case True
    have "percentile v p = Inr (v ! nat (int (length v) - 1))"
      using True u py_index_last [OF assms(1)] by simp
    then show ?thesis unfolding Let_def keq using True by simp
  next
    case False
    have a: "py_index v \<lfloor>k\<rfloor> = Inr (v ! nat \<lfloor>k\<rfloor>)"
      using False f0 by (intro py_index_nonneg) linarith+
    have b: "py_index v (\<lfloor>k\<rfloor> + 1) = Inr (v ! nat (\<lfloor>k\<rfloor> + 1))"
      using False f0 by (intro py_index_nonneg) linarith+
    have "percentile v p =
        Inr (v ! nat \<lfloor>k\<rfloor> * (of_int (\<lfloor>k\<rfloor> + 1) - k) + v ! nat (\<lfloor>k\<rfloor> + 1) * (k - of_int \<lfloor>k\<rfloor>))"
      using False by (simp only: u a b if_False sum.case)
    then show ?thesis unfolding Let_def keq using False by (simp only: if_False)
  qed
next
  show "percentile [10, 20, 30, 40] 95 = Inr 38.5"
    by (simp add: percentile_def py_int_def py_index_def Let_def)
qed

theorem percentile_interpolation_witness:
  "[10, 20, 30, 40] \<noteq> ([]::real list) \<and> sorted [10, 20, 30, 40 :: real]
   \<and> (0::real) \<le> 95 \<and> (95::real) \<le> 100
   \<and> percentile [10, 20, 30, 40] 95 = Inr (30 * (3 - 2.85) + 40 * (2.85 - 2))"
proof -
  have a: "[10, 20, 30, 40] \<noteq> ([]::real list)" by simp
  have b: "sorted [10, 20, 30, 40 :: real]" by simp
  have c: "(0::real) \<le> 95" by simp
  have d: "(95::real) \<le> 100" by simp
  show ?thesis
    using percentile_interpolation [OF a b c d] by (simp add: Let_def)
qed

lemmas stat_defs = statistics_mean_def statistics_median_def statistics_stdev_def py_min_def
  py_max_def np_percentile_def py_truediv_def

section \<open>Properties of the aggregators\<close>

text \<open>
  Claim C2. Latency statistics are to be computed over the durations of the successful
  attempts only, and to be 0 when no attempt succeeded. \<open>run_real_network_load_test\<close>
  takes the durations of all results: with one success of 100 ms and one failure of 20 ms
  the mean is 60 and the minimum is 20, and a batch whose only attempt failed after 20 ms
  has mean and maximum 20.
\<close>

theorem real_network_latency_counts_failed_attempts:
  "(case real_network_metrics
           [\<lparr>success = True, status_code = Some 200, duration_ms = 100, error = None\<rparr>,
            \<lparr>success = False, status_code = Some 0, duration_ms = 20, error = Some ''lost''\<rparr>] 2 of
      Inl e \<Rightarrow> False
    | Inr s \<Rightarrow> mean_ms (latency s) = 60 \<and> median_ms (latency s) = 60
              \<and> min_ms (latency s) = 20 \<and> max_ms (latency s) = 100)
   \<and> (case real_network_metrics
           [\<lparr>success = False, status_code = Some 0, duration_ms = 20, error = Some ''lost''\<rparr>] 1 of
      Inl e \<Rightarrow> False
    | Inr s \<Rightarrow> successful_requests s = 0 \<and> mean_ms (latency s) = 20 \<and> max_ms (latency s) = 20)"
  by (simp add: real_network_metrics_def stat_defs Let_def)

text \<open>
  Claim C3. The throughput is to be the number of successful attempts per elapsed second.
  \<open>run_real_network_load_test\<close> divides the number of all results by the elapsed time:
  one success and one failure in 2 seconds give 1 request per second.
\<close>

theorem real_network_throughput_counts_all_attempts:
  "(case real_network_metrics
           [\<lparr>success = True, status_code = Some 200, duration_ms = 100, error = None\<rparr>,
            \<lparr>success = False, status_code = Some 0, duration_ms = 20, error = Some ''lost''\<rparr>] 2 of
      Inl e \<Rightarrow> False
    | Inr s \<Rightarrow> successful_requests s = 1 \<and> total_duration_s s = 2
              \<and> throughput_req_s s = 1 \<and> throughput_req_s s \<noteq> real (successful_requests s) / total_duration_s s)"
  by (simp add: real_network_metrics_def stat_defs Let_def)

text \<open>
  Claim C4. An empty batch is to report success rate 0 without a division by zero.
  \<open>run_real_network_load_test\<close> with no scheduled request divides by the length of the
  empty result list.
\<close>

theorem real_network_empty_batch_raises:
  "run_real_network_load_test st [] total_duration = Inl ZeroDivisionError"
  by (simp add: run_real_network_load_test_def real_network_metrics_def py_truediv_def)

text \<open>
  \<open>analyze_performance\<close> of test-orchestrated.py does what the three claims say: it
  guards the empty batch, uses the successful attempts only, and reports zeros when no
  attempt succeeded.
\<close>

lemma analyze_performance_empty:
  "analyze_performance [] d =
     Inr \<lparr> perf_total_requests = 0, perf_successful_requests = 0, perf_failed_requests = 0,
           success_rate_percent = 0, total_duration_seconds = d, throughput_req_per_sec = 0,
           avg_ms = 0, perf_median_ms = 0, perf_min_ms = 0, perf_max_ms = 0, perf_p95_ms = 0 \<rparr>"
  by (simp add: analyze_performance_def py_truediv_def)

lemma analyze_performance_none_successful:
  assumes "filter success results = []"
  shows "\<exists>m. analyze_performance results d = Inr m \<and> avg_ms m = 0 \<and> perf_median_ms m = 0
          \<and> perf_min_ms m = 0 \<and> perf_max_ms m = 0 \<and> perf_p95_ms m = 0"
  using assms by (simp add: analyze_performance_def py_truediv_def Let_def)

lemma p95_index_in_range:
  assumes "xs \<noteq> []"
  shows "py_index (sort xs) (py_int (real (length xs) * 0.95))
         = Inr (sort xs ! nat \<lfloor>real (length xs) * 0.95\<rfloor>)"
proof -
  have n: "0 < real (length xs)" using assms by simp
  have a: "0 \<le> \<lfloor>real (length xs) * 0.95\<rfloor>" by simp
  have "real (length xs) * 0.95 < real (length xs)" using n by simp
  then have b: "\<lfloor>real (length xs) * 0.95\<rfloor> < int (length (sort xs))"
    by (simp add: floor_less_iff)
  have "py_int (real (length xs) * 0.95) = \<lfloor>real (length xs) * 0.95\<rfloor>"
    by (simp add: py_int_def)
  then show ?thesis using py_index_nonneg [OF a b] by simp
qed

lemma if_Inr_ex: "\<exists>m. (if c then Inr a else Inr b) = Inr m"
  by (cases c) auto

lemma statistics_median_total: "xs \<noteq> [] \<Longrightarrow> \<exists>m. statistics_median xs = Inr m"
  unfolding statistics_median_def Let_def by (simp only: if_False if_Inr_ex)

lemma analyze_performance_successful_only:
  assumes "filter success results \<noteq> []"
  shows "\<exists>m. analyze_performance results d = Inr m
          \<and> Inr (avg_ms m) = statistics_mean (map duration_ms (filter success results))
          \<and> Inr (perf_median_ms m) = statistics_median (map duration_ms (filter success results))
          \<and> Inr (perf_min_ms m) = py_min (map duration_ms (filter success results))
          \<and> Inr (perf_max_ms m) = py_max (map duration_ms (filter success results))
          \<and> throughput_req_per_sec m
              = (if d > 0 then real (length (filter success results)) / d else 0)"
proof -
  let ?ds = "map duration_ms (filter success results)"
  have ne: "?ds \<noteq> []" using assms by simp
  have r: "results \<noteq> []" using assms by auto
  obtain avg where avg: "statistics_mean ?ds = Inr avg"
    using ne by (simp add: statistics_mean_def)
  have "\<exists>med. statistics_median ?ds = Inr med"
    using ne statistics_median_total by blast
  then obtain med where med: "statistics_median ?ds = Inr med" ..
  obtain mn where mn: "py_min ?ds = Inr mn"
    using ne by (cases ?ds) (simp_all add: py_min_def)
  obtain mx where mx: "py_max ?ds = Inr mx"
    using ne by (cases ?ds) (simp_all add: py_max_def)
  have p: "py_index (sort ?ds) (py_int (real (length ?ds) * 0.95))
         = Inr (sort ?ds ! nat \<lfloor>real (length ?ds) * 0.95\<rfloor>)"
    using p95_index_in_range [OF ne] .
  show ?thesis
    unfolding analyze_performance_def Let_def
    using assms r p
    by (simp add: avg med mn mx py_truediv_def)
qed

section \<open>Properties of the simulator and of the load driver\<close>

text \<open>
  Claim C5. When a network profile is active and the uniform sample of the attempt is
  below its packet loss rate, the request fails with the injected packet-loss error, no
  network delay is slept and the wrapped function is not called: the network simulation
  performs no event at all, and the whole wrapped request performs the server-processing
  sleeps only.
\<close>

theorem packet_loss_skips_operation:
  assumes "active_profile st = Some p" and "loss_sample rnd < packet_loss_rate p"
  shows "simulate_real_request st rnd f = ([], Inl (PacketLoss (packet_loss_rate p)))
       \<and> simulate_real_world_request st rnd f
           = (simulate_server_processing st rnd, Inl (PacketLoss (packet_loss_rate p)))
       \<and> Call \<notin> set (fst (simulate_real_world_request st rnd f))"
proof -
  have a: "simulate_real_request st rnd f = ([], Inl (PacketLoss (packet_loss_rate p)))"
    using assms by (simp add: simulate_real_request_def simulate_packet_loss_def)
  have b: "Call \<notin> set (simulate_server_processing st rnd)"
    by (cases "active_load st") (simp_all add: simulate_server_processing_def Let_def)
  show ?thesis using a b by (simp add: simulate_real_world_request_def)
qed

text \<open>Applying the scenario \<open>poor_connectivity\<close> to the initial simulator.\<close>

lemma apply_poor_connectivity:
  "apply_real_world_scenario initial_simulator ''poor_connectivity'' = Inr poor_connectivity"
  by (simp add: apply_real_world_scenario_def scenarios_def apply_network_profile_def
      profiles_def apply_load_profile_def load_profiles_def initial_simulator_def
      poor_connectivity_def wan_poor_def heavy_def)

theorem packet_loss_skips_operation_witness:
  "active_profile poor_connectivity = Some wan_poor
   \<and> loss_sample lost_draws < packet_loss_rate wan_poor
   \<and> simulate_real_request poor_connectivity lost_draws (Inr ok_response)
       = ([], Inl (PacketLoss 0.1))
   \<and> simulate_real_world_request poor_connectivity lost_draws (Inr ok_response)
       = ([Sleep (1/10), Sleep (1/5)], Inl (PacketLoss 0.1))"
proof -
  have a: "active_profile poor_connectivity = Some wan_poor"
    by (simp add: poor_connectivity_def)
  have b: "loss_sample lost_draws < packet_loss_rate wan_poor"
    by (simp add: lost_draws_def wan_poor_def)
  have c: "simulate_server_processing poor_connectivity lost_draws = [Sleep (1/10), Sleep (1/5)]"
    by (simp add: simulate_server_processing_def poor_connectivity_def heavy_def lost_draws_def)
  have d: "packet_loss_rate wan_poor = 0.1" by (simp add: wan_poor_def)
  show ?thesis
    using packet_loss_skips_operation [OF a b, of "Inr ok_response"] a b c d by simp
qed

text \<open>
  Claim C6. After \<open>clear_simulation\<close> every wrapped request is to be a pass-through with no
  injected delay. \<open>RealWorldSimulator.clear_simulation\<close> ("Clear all simulations") resets
  the network simulator and the scenario name but not the server load: after applying
  \<open>poor_connectivity\<close> and clearing, a request still sleeps the CPU delay of 0.1 s and the
  I/O delay of 0.2 s before the call.
\<close>

theorem clear_keeps_server_delay:
  "apply_real_world_scenario initial_simulator ''poor_connectivity'' = Inr poor_connectivity
   \<and> active_load (clear_simulation poor_connectivity) = Some heavy
   \<and> simulate_real_world_request (clear_simulation poor_connectivity) kept_draws (Inr ok_response)
       = ([Sleep (1/10), Sleep (1/5), Call], Inr ok_response)"
proof -
  have "simulate_real_world_request (clear_simulation poor_connectivity) kept_draws (Inr ok_response)
       = ([Sleep (1/10), Sleep (1/5), Call], Inr ok_response)"
    by (simp add: poor_connectivity_def heavy_def kept_draws_def
      clear_simulation_def network_clear_simulation_def simulate_real_world_request_def
      simulate_server_processing_def simulate_real_request_def)
  moreover have "active_load (clear_simulation poor_connectivity) = Some heavy"
    by (simp add: poor_connectivity_def clear_simulation_def network_clear_simulation_def)
  ultimately show ?thesis using apply_poor_connectivity by simp
qed

text \<open>What does hold after clearing: the network part is a pass-through, and the whole
  request is one when no server load had been applied.\<close>

lemma clear_network_pass_through:
  "simulate_real_request (clear_simulation st) rnd f = ([Call], f)
   \<and> active_load (clear_simulation st) = active_load st"
  by (simp add: clear_simulation_def network_clear_simulation_def simulate_real_request_def)

lemma clear_pass_through_without_load:
  "active_load st = None \<Longrightarrow> simulate_real_world_request (clear_simulation st) rnd f = ([Call], f)"
  by (simp add: clear_simulation_def network_clear_simulation_def simulate_real_request_def
      simulate_real_world_request_def simulate_server_processing_def)

text \<open>The request loop appends one result per attempt.\<close>

lemma request_loop_map:
  "request_loop st attempts acc = acc @ map (execute_real_network_request st) attempts"
  by (induction attempts arbitrary: acc) simp_all

text \<open>
  Claim C7. Every attempt of the load driver is wrapped in a failure boundary: an
  exception of the wrapped call (injected packet loss or an exception of the request)
  becomes a result with \<open>success = False\<close>, the text of the exception and the elapsed
  duration; the loop goes on, so the batch holds one result per scheduled attempt. The
  same holds for \<open>create_order\<close> of load-test.py.
\<close>

theorem failure_boundary:
  "length (request_loop st attempts []) = length attempts
   \<and> (\<forall>i < length attempts. \<forall>e.
        snd (simulate_real_world_request st (attempt_draws (attempts ! i))
               (request_func (attempts ! i))) = Inl e
        \<longrightarrow> request_loop st attempts [] ! i
            = \<lparr>success = False, status_code = Some 0,
               duration_ms = (end_time (attempts ! i) - start_time (attempts ! i)) * 1000,
               error = Some (str_exn e)\<rparr>)
   \<and> (\<forall>e. request_func a = Inl e
        \<longrightarrow> create_order a
            = \<lparr>success = False, status_code = None,
               duration_ms = (end_time a - start_time a) * 1000,
               error = Some (str_exn e)\<rparr>)"
  by (simp add: request_loop_map execute_real_network_request_def create_order_def)


theorem failure_boundary_witness:
  "(0::nat) < length [lost_attempt, timeout_attempt]
   \<and> snd (simulate_real_world_request poor_connectivity
            (attempt_draws ([lost_attempt, timeout_attempt] ! 0))
            (request_func ([lost_attempt, timeout_attempt] ! 0))) = Inl (PacketLoss 0.1)
   \<and> request_loop poor_connectivity [lost_attempt, timeout_attempt] [] ! 0
       = \<lparr>success = False, status_code = Some 0, duration_ms = 300,
          error = Some ''NETWORK_SIM: Packet loss (rate: 10.0%)''\<rparr>
   \<and> length (request_loop poor_connectivity [lost_attempt, timeout_attempt] []) = 2
   \<and> request_func timeout_attempt = Inl (Raised ''Read timed out'')
   \<and> create_order timeout_attempt
       = \<lparr>success = False, status_code = None, duration_ms = 60000,
          error = Some ''Read timed out''\<rparr>"
proof -
  let ?as = "[lost_attempt, timeout_attempt]"
  have a: "(0::nat) < length ?as" by simp
  have b: "snd (simulate_real_world_request poor_connectivity
            (attempt_draws (?as ! 0)) (request_func (?as ! 0))) = Inl (PacketLoss 0.1)"
    by (simp add: simulate_real_world_request_def simulate_real_request_def
        simulate_packet_loss_def poor_connectivity_def wan_poor_def lost_attempt_def
        lost_draws_def split: prod.splits)
  have c: "request_func timeout_attempt = Inl (Raised ''Read timed out'')"
    by (simp add: timeout_attempt_def)
  note t = failure_boundary [of poor_connectivity ?as timeout_attempt]
  have l: "length (request_loop poor_connectivity ?as []) = 2" using t by simp
  have r: "request_loop poor_connectivity ?as [] ! 0
       = \<lparr>success = False, status_code = Some 0,
          duration_ms = (end_time (?as ! 0) - start_time (?as ! 0)) * 1000,
          error = Some (str_exn (PacketLoss 0.1))\<rparr>"
    using t a b by blast
  have o: "create_order timeout_attempt
       = \<lparr>success = False, status_code = None,
          duration_ms = (end_time timeout_attempt - start_time timeout_attempt) * 1000,
          error = Some (str_exn (Raised ''Read timed out''))\<rparr>"
    using t c by blast
  have r': "request_loop poor_connectivity ?as [] ! 0
       = \<lparr>success = False, status_code = Some 0, duration_ms = 300,
          error = Some ''NETWORK_SIM: Packet loss (rate: 10.0%)''\<rparr>"
  proof -
    have "str_exn (PacketLoss 0.1) = ''NETWORK_SIM: Packet loss (rate: 10.0%)''"
      by (simp add: format_1f_def round_half_even_def decimal.simps digit_def)
    then show ?thesis using r by (simp add: lost_attempt_def)
  qed
  have o': "create_order timeout_attempt
       = \<lparr>success = False, status_code = None, duration_ms = 60000,
          error = Some ''Read timed out''\<rparr>"
    using o by (simp add: timeout_attempt_def)
  show ?thesis using a b c l r' o' by blast
qed

section \<open>Properties of the statistical comparators\<close>

text \<open>With at least three samples, \<open>is_normal\<close> is the Shapiro-Wilk decision \<open>p > alpha\<close>;
  the normality test consults neither Levene's test nor the t-test.\<close>

lemma normality_shapiro:
  "3 \<le> length d \<Longrightarrow> shapiro sp d = Some (w, p) \<Longrightarrow> snd (test_normality sp alpha d) = (p > alpha)"
  by (simp add: test_normality_def)

lemma test_normality_levene_free:
  "test_normality (sp\<lparr>levene := l\<rparr>) alpha d = test_normality sp alpha d"
  by (simp add: test_normality_def)

lemma test_normality_ttest_free:
  "test_normality (sp\<lparr>ttest_ind := t\<rparr>) alpha d = test_normality sp alpha d"
  by (simp add: test_normality_def)


text \<open>
  The archived analyzer does what claim C8 says: for two normal groups it runs Levene's
  test and then the t-test with \<open>equal_var = (levene_p > alpha)\<close>, Welch's test when the
  variances differ. The optimized analyzer runs the t-test with equal variances. Both run
  the two-sided Mann-Whitney U test when a group is not normal.
\<close>

lemma archived_both_normal:
  assumes "snd (test_normality sp alpha a)" and "snd (test_normality sp alpha b)"
    and "levene sp a b = Some (ls, lp)" and "ttest_ind sp a b (lp > alpha) = Some (s, p)"
  shows "archived_select_test sp alpha a b
          = Some \<lparr>test = (if lp > alpha then ''Independent t-test (equal_var=True)''
                          else ''Independent t-test (equal_var=False)''),
                 statistic = s, p_value = p, significant = (p < alpha),
                 levene_test = Some (ls, lp)\<rparr>"
  using assms by (simp add: archived_select_test_def)

lemma optimized_both_normal:
  assumes "snd (test_normality sp alpha a)" and "snd (test_normality sp alpha b)"
    and "ttest_ind sp a b True = Some (s, p)"
  shows "optimized_select_test sp alpha a b
          = Inr \<lparr>test = ''Independent t-test'', statistic = s, p_value = p,
                significant = (p < alpha), levene_test = None\<rparr>"
  using assms by (simp add: optimized_select_test_def)

lemma not_both_normal:
  assumes "\<not> (snd (test_normality sp alpha a) \<and> snd (test_normality sp alpha b))"
  shows "archived_select_test sp alpha a b = mann_whitney_entry sp alpha a b"
    and "mannwhitneyu sp a b = Some (s, p) \<Longrightarrow>
         optimized_select_test sp alpha a b
          = Inr \<lparr>test = ''Mann-Whitney U test'', statistic = s, p_value = p,
                significant = (p < alpha), levene_test = None\<rparr>"
  using assms by (auto simp add: archived_select_test_def optimized_select_test_def)

text \<open>
  Claim C8. For two normal groups the comparator is to run Levene's test and to choose
  Welch's t-test when the variances differ. The optimized analyzer never does: whatever
  Levene's test would return, and whatever Welch's variant of the t-test would return,
  its result is the same, the one obtained with \<open>equal_var=True\<close>.
\<close>

theorem optimized_never_runs_levene_or_welch:
  "optimized_select_test (sp\<lparr>levene := l\<rparr>) alpha a b = optimized_select_test sp alpha a b
   \<and> optimized_select_test (sp\<lparr>ttest_ind := (\<lambda>x y equal_var. ttest_ind sp x y True)\<rparr>) alpha a b
       = optimized_select_test sp alpha a b"
  by (simp add: optimized_select_test_def test_normality_levene_free test_normality_ttest_free)




text \<open>The archived analyzer has the category but not the guard: the numpy division of 0 by
  0 gives \<open>nan\<close>, which no comparison of \<open>interpret_effect_size\<close> accepts. The guard of
  the optimized analyzer keeps its Cohen's d finite for every input.\<close>

lemma archived_effect_size_unguarded:
  "archived_effect_size unrounded [5, 5, 5] [5, 5, 5]
     = Some \<lparr>cohens_d = NaN, effect_interpretation = Some ''large''\<rparr>"
  by (simp add: archived_effect_size_def calculate_cohens_d_def statistics_mean_def
      statistics_stdev_def sample_variance_def unrounded_def np_div_def
      interpret_effect_size_def)

lemma optimized_cohens_d_finite:
  "\<exists>r. cohens_d (optimized_effect_size nm a b) = Fin r"
  by (simp add: optimized_effect_size_def np_div_def)



text \<open>A comparison of the optimized analyzer reports the effect size and the winner of
  the means that numpy computed.\<close>

lemma optimized_compare_metrics_parts:
  assumes "optimized_compare_metrics sp nm alpha m a b = Inr (Compared c)"
  shows "cmp_effect c = optimized_effect_size nm a b
       \<and> (winner c, improvement_percent c) = optimized_winner m (np_mean nm a) (np_mean nm b)"
  using assms
  by (cases "optimized_select_test sp alpha a b")
     (auto simp: optimized_compare_metrics_def Let_def split: if_splits prod.splits)




end
